theory Spec2Isabelle
  imports Main "HOL-Library.Finite_Map" "HOL-Library.Word"
begin

section \<open>Python values seen by the codec\<close>

text \<open>
  The module \<^verbatim>\<open>asphalt/serialization/object_codec.py\<close> holds one class,
  \<^verbatim>\<open>DefaultCustomTypeCodec\<close>, with the methods \<^verbatim>\<open>__init__\<close>,
  \<^verbatim>\<open>default_encoder\<close>, \<^verbatim>\<open>default_decoder\<close>, \<^verbatim>\<open>wrap_state_dict\<close> and
  \<^verbatim>\<open>unwrap_state_dict\<close>. The embedding below follows them line by line. Exceptions are
  values of \<open>py_error\<close>, and every function that can raise returns \<open>py_error + 'a\<close>
  with \<open>Inl\<close> for the raised exception.

  A class is its module, its qualified name inside the module, its direct bases and the two
  methods that make its instances: \<open>cls_new\<close> is what \<^verbatim>\<open>cls.__new__(cls)\<close> does, and
  \<open>cls_init\<close> is what \<^verbatim>\<open>__init__\<close>, called on an instance with no further argument,
  does. \<^verbatim>\<open>__new__\<close> makes a new instance of the class and may set attributes on it
  (\<open>NewInstance\<close>; the \<^verbatim>\<open>__new__\<close> inherited from \<^verbatim>\<open>object\<close> sets none), or returns
  some other value (\<open>Existing\<close>; a built-in class returns its zero value), or raises
  (\<open>NewRaises\<close>). \<^verbatim>\<open>__init__\<close> sets attributes or raises.

  The values: \<open>None\<close>, booleans, integers, floats (the 64 bits of the double; the codec
  never computes with them), strings, lists, dictionaries with string keys (the annotation
  \<^verbatim>\<open>Dict[str, Any]\<close> of \<^verbatim>\<open>unwrap_state_dict\<close>) and instances of user classes. A
  dictionary is a finite map, so that equality of two dictionaries is Python's \<^verbatim>\<open>==\<close>,
  which ignores insertion order. An instance is its class and its attribute dictionary
  (\<^verbatim>\<open>__dict__\<close>); user classes inherit \<^verbatim>\<open>__hash__\<close> and \<^verbatim>\<open>__eq__\<close> from
  \<^verbatim>\<open>object\<close> and define no \<^verbatim>\<open>__len__\<close>.

  The message of an exception is a literal text, or an f-string with one interpolated
  value, kept as the text before it, the value and the text after it.
\<close>

datatype cls =
    Cls (cls_module: string) (cls_qualname: string) (cls_bases: "cls list")
      (cls_new: allocator) (cls_init: "py_error + (string, pyval) fmap")
and allocator =
    NewInstance "(string, pyval) fmap"
  | Existing pyval
  | NewRaises py_error
and pyval =
    PNone
  | PBool bool
  | PInt int
  | PFloat "64 word"
  | PStr string
  | PList "pyval list"
  | PDict "(string, pyval) fmap"
  | PObj cls "(string, pyval) fmap"
and message = Text string | Interp string pyval string
and py_error =
    LookupError message
  | KeyError message
  | TypeError message
  | AttributeError message
  | OtherError string message

text \<open>The text of a message whose interpolated value is a string: \<^verbatim>\<open>f"{s}"\<close> is \<open>s\<close>.\<close>

fun message_text :: "message \<Rightarrow> string option" where
  "message_text (Text s) = Some s"
| "message_text (Interp a (PStr s) b) = Some (a @ s @ b)"
| "message_text (Interp a v b) = None"

subsection \<open>Built-in classes and the operations of the runtime\<close>

text \<open>
  The built-in classes of the values. \<^verbatim>\<open>int.__new__(int)\<close> is \<open>0\<close>,
  \<^verbatim>\<open>list.__new__(list)\<close> is the empty list, and so on; \<^verbatim>\<open>object.__new__\<close> makes a
  new instance with no attribute set.
\<close>

definition object_cls :: cls where
  "object_cls = Cls ''builtins'' ''object'' [] (NewInstance fmempty) (Inr fmempty)"

definition NoneType_cls :: cls where
  "NoneType_cls = Cls ''builtins'' ''NoneType'' [object_cls] (Existing (PNone)) (Inr fmempty)"

definition int_cls :: cls where
  "int_cls = Cls ''builtins'' ''int'' [object_cls] (Existing (PInt 0)) (Inr fmempty)"

definition bool_cls :: cls where
  "bool_cls = Cls ''builtins'' ''bool'' [int_cls] (Existing (PBool False)) (Inr fmempty)"

definition float_cls :: cls where
  "float_cls = Cls ''builtins'' ''float'' [object_cls] (Existing (PFloat 0)) (Inr fmempty)"

definition str_cls :: cls where
  "str_cls = Cls ''builtins'' ''str'' [object_cls] (Existing (PStr '''')) (Inr fmempty)"

definition list_cls :: cls where
  "list_cls = Cls ''builtins'' ''list'' [object_cls] (Existing (PList [])) (Inr fmempty)"

definition dict_cls :: cls where
  "dict_cls = Cls ''builtins'' ''dict'' [object_cls] (Existing (PDict fmempty)) (Inr fmempty)"

text \<open>\<^verbatim>\<open>obj.__class__\<close>: the exact runtime class of a value.\<close>

fun class_of :: "pyval \<Rightarrow> cls" where
  "class_of PNone = NoneType_cls"
| "class_of (PBool b) = bool_cls"
| "class_of (PInt i) = int_cls"
| "class_of (PFloat w) = float_cls"
| "class_of (PStr s) = str_cls"
| "class_of (PList xs) = list_cls"
| "class_of (PDict d) = dict_cls"
| "class_of (PObj c attrs) = c"

text \<open>All the classes a class inherits from, directly or not.\<close>

fun superclasses :: "cls \<Rightarrow> cls list" where
  "superclasses (Cls m n bs alloc ini) = concat (map (\<lambda>b. b # superclasses b) bs)"

text \<open>
  Modelled from the spec: \<^verbatim>\<open>qualified_name\<close> is imported from \<^verbatim>\<open>asphalt.core\<close>, which
  is not part of the sources. It gives "the type's fully qualified name": the module and
  the qualified name of the class joined by a dot, and the bare name for a built-in class.
\<close>

definition qualified_name :: "cls \<Rightarrow> string" where
  "qualified_name c =
     (if cls_module c = ''builtins'' then cls_qualname c
      else cls_module c @ ''.'' @ cls_qualname c)"

definition quoted :: "string \<Rightarrow> string" where
  "quoted s = [CHR 0x27] @ s @ [CHR 0x27]"

text \<open>
  \<^verbatim>\<open>len(obj)\<close>: defined on strings, lists and dictionaries; a \<^verbatim>\<open>TypeError\<close> on every
  other value.
\<close>

fun py_len :: "pyval \<Rightarrow> py_error + nat" where
  "py_len (PStr s) = Inr (length s)"
| "py_len (PList xs) = Inr (length xs)"
| "py_len (PDict d) = Inr (fcard (fmdom d))"
| "py_len v =
     Inl (TypeError (Text (''object of type '' @ quoted (cls_qualname (class_of v)) @ '' has no len()'')))"

text \<open>
  \<^verbatim>\<open>obj.get(key)\<close>: on a dictionary, the value stored under the key, \<open>None\<close> when the
  key is absent; no other value of the model has an attribute \<^verbatim>\<open>get\<close>.
\<close>

fun py_get :: "pyval \<Rightarrow> string \<Rightarrow> py_error + pyval" where
  "py_get (PDict d) k = Inr (case fmlookup d k of None \<Rightarrow> PNone | Some v \<Rightarrow> v)"
| "py_get v k =
     Inl (AttributeError (Text (quoted (cls_qualname (class_of v)) @ '' object has no attribute '' @ quoted ''get'')))"

text \<open>Lists and dictionaries are unhashable; every other value can be a dictionary key.\<close>

fun hashable :: "pyval \<Rightarrow> bool" where
  "hashable (PList xs) = False"
| "hashable (PDict d) = False"
| "hashable v = True"

text \<open>
  \<^verbatim>\<open>cls.__new__(cls)\<close>: what the class's \<^verbatim>\<open>__new__\<close> does when it is called with the
  class alone. For a class that inherits \<^verbatim>\<open>object.__new__\<close> this is a new instance of
  the class with no attribute set. No \<^verbatim>\<open>__init__\<close> runs.
\<close>

definition py_new :: "cls \<Rightarrow> py_error + pyval" where
  "py_new c =
     (case cls_new c of
        NewInstance attrs \<Rightarrow> Inr (PObj c attrs)
      | Existing v \<Rightarrow> Inr v
      | NewRaises e \<Rightarrow> Inl e)"

text \<open>
  The normal construction of an instance, the call \<^verbatim>\<open>cls()\<close>: \<^verbatim>\<open>__new__\<close>, then
  \<^verbatim>\<open>__init__\<close> on the result when it is an instance of the class. The codec never makes
  this call; it is defined to state the difference.
\<close>

definition isinstance :: "pyval \<Rightarrow> cls \<Rightarrow> bool" where
  "isinstance obj c = (class_of obj = c \<or> c \<in> set (superclasses (class_of obj)))"

fun add_attrs :: "pyval \<Rightarrow> (string, pyval) fmap \<Rightarrow> pyval" where
  "add_attrs (PObj c attrs) sets = PObj c (attrs ++\<^sub>f sets)"
| "add_attrs v sets = v"

definition py_init :: "pyval \<Rightarrow> py_error + pyval" where
  "py_init obj =
     (case cls_init (class_of obj) of
        Inl e \<Rightarrow> Inl e
      | Inr sets \<Rightarrow> Inr (add_attrs obj sets))"

definition construct :: "cls \<Rightarrow> py_error + pyval" where
  "construct c =
     (case py_new c of
        Inl e \<Rightarrow> Inl e
      | Inr obj \<Rightarrow> if isinstance obj c then py_init obj else Inr obj)"

section \<open>The registry of the serializer\<close>

text \<open>
  \<^verbatim>\<open>marshallers\<close> maps a class to \<^verbatim>\<open>(typename, marshaller, wrap_state)\<close>;
  \<^verbatim>\<open>unmarshallers\<close> maps a type name to \<^verbatim>\<open>(cls, unmarshaller)\<close>, where \<^verbatim>\<open>cls\<close> may be
  \<open>None\<close>. Both tables belong to the serializer; the codec only reads them.

  A marshaller is user code: it returns the state or raises. An unmarshaller is called with
  one argument (the state) or with two (the instance to fill and the state). A Python
  function has one arity, so an unmarshaller is one of \<open>Build f\<close>, taking the state and
  returning the value, and \<open>Populate f\<close>, taking the instance and the state and mutating the
  instance in place: \<open>f\<close> returns what the Python function returns, paired with the
  instance as the call leaves it. The instance after the call is the same object: a
  mutation changes the attributes of an instance (or its class, by an assignment to
  \<^verbatim>\<open>__class__\<close>), the elements of a list, the entries of a dictionary, and nothing of
  an immutable value. A call with the wrong number of arguments is a \<^verbatim>\<open>TypeError\<close>.
\<close>

datatype unmarshaller =
    Build "pyval \<Rightarrow> py_error + pyval"
  | Populate "pyval \<Rightarrow> pyval \<Rightarrow> py_error + pyval \<times> pyval"

fun mutated :: "pyval \<Rightarrow> pyval \<Rightarrow> pyval" where
  "mutated (PObj c attrs) (PObj c' attrs') = PObj c' attrs'"
| "mutated (PList xs) (PList ys) = PList ys"
| "mutated (PDict d) (PDict d') = PDict d'"
| "mutated inst inst' = inst"

fun call1 :: "unmarshaller \<Rightarrow> pyval \<Rightarrow> py_error + pyval" where
  "call1 (Build f) state = f state"
| "call1 (Populate f) state =
     Inl (TypeError (Text ''missing 1 required positional argument''))"

text \<open>
  The call with two arguments gives what the function returns and the first argument as
  the call leaves it.
\<close>

fun call2 :: "unmarshaller \<Rightarrow> pyval \<Rightarrow> pyval \<Rightarrow> py_error + pyval \<times> pyval" where
  "call2 (Populate f) inst state =
     (case f inst state of
        Inl e \<Rightarrow> Inl e
      | Inr (ret, inst') \<Rightarrow> Inr (ret, mutated inst inst'))"
| "call2 (Build f) inst state =
     Inl (TypeError (Text ''takes 1 positional argument but 2 were given''))"

record serializer =
  marshallers :: "cls \<rightharpoonup> string \<times> (pyval \<Rightarrow> py_error + pyval) \<times> bool"
  unmarshallers :: "string \<rightharpoonup> cls option \<times> unmarshaller"

section \<open>The codec\<close>

record codec_keys =
  type_key :: string
  state_key :: string

record codec = codec_keys +
  wrap_callback :: "string \<Rightarrow> pyval \<Rightarrow> py_error + pyval"
  unwrap_callback :: "pyval \<Rightarrow> py_error + pyval \<times> pyval"
  serializer :: "serializer option"

text \<open>
  \<^verbatim>\<open>wrap_state_dict\<close>: the dictionary literal \<^verbatim>\<open>{self.type_key: typename,
  self.state_key: state}\<close>. The entries are stored from left to right, so when the two
  keys are the same string the state overwrites the type name.
\<close>

definition wrap_state_dict :: "'a codec_keys_scheme \<Rightarrow> string \<Rightarrow> pyval \<Rightarrow> pyval" where
  "wrap_state_dict self typename state =
     PDict (fmupd (state_key self) state (fmupd (type_key self) (PStr typename) fmempty))"

text \<open>
  \<^verbatim>\<open>unwrap_state_dict\<close>: \<^verbatim>\<open>len(obj)\<close> is taken first; only when it is 2 are the two
  \<^verbatim>\<open>obj.get\<close> calls made.
\<close>

definition unwrap_state_dict :: "'a codec_keys_scheme \<Rightarrow> pyval \<Rightarrow> py_error + pyval \<times> pyval" where
  "unwrap_state_dict self obj =
     (case py_len obj of
        Inl e \<Rightarrow> Inl e
      | Inr n \<Rightarrow>
          if n = 2 then
            (case py_get obj (type_key self) of
               Inl e \<Rightarrow> Inl e
             | Inr typename \<Rightarrow>
                 (case py_get obj (state_key self) of
                    Inl e \<Rightarrow> Inl e
                  | Inr state \<Rightarrow>
                      if typename \<noteq> PNone then Inr (typename, state)
                      else Inr (PNone, PNone)))
          else Inr (PNone, PNone))"

text \<open>
  \<^verbatim>\<open>__init__\<close>: stores the two keys and binds the two callbacks to the codec's own
  methods. The attribute \<^verbatim>\<open>serializer\<close> is only declared by the class; it is unset until
  the serializer assigns it.
\<close>

definition init :: "string \<Rightarrow> string \<Rightarrow> codec" where
  "init tk sk =
     \<lparr>type_key = tk, state_key = sk,
      wrap_callback = (\<lambda>typename state.
        Inr (wrap_state_dict \<lparr>type_key = tk, state_key = sk\<rparr> typename state)),
      unwrap_callback = unwrap_state_dict \<lparr>type_key = tk, state_key = sk\<rparr>,
      serializer = None\<rparr>"

text \<open>The defaults of \<^verbatim>\<open>__init__\<close>.\<close>

definition default_codec :: codec where
  "default_codec = init ''__type__'' ''state''"

text \<open>The serializer's assignment \<^verbatim>\<open>codec.serializer = serializer\<close>.\<close>

definition attach :: "codec \<Rightarrow> serializer \<Rightarrow> codec" where
  "attach self ser = self\<lparr>serializer := Some ser\<rparr>"

definition no_serializer :: py_error where
  "no_serializer =
     AttributeError (Text (quoted ''DefaultCustomTypeCodec'' @ '' object has no attribute '' @ quoted ''serializer''))"

text \<open>
  \<^verbatim>\<open>default_encoder\<close>. The \<^verbatim>\<open>try\<close> block holds the table lookup alone, so
  \<^verbatim>\<open>except KeyError\<close> catches a missing class and nothing else; the marshaller and the
  wrap callback run outside it.
\<close>

definition default_encoder :: "codec \<Rightarrow> pyval \<Rightarrow> py_error + pyval" where
  "default_encoder self obj =
     (let obj_type = class_of obj in
      case serializer self of
        None \<Rightarrow> Inl no_serializer
      | Some ser \<Rightarrow>
          (case marshallers ser obj_type of
             None \<Rightarrow>
               Inl (LookupError (Text
                 (''no marshaller found for type \"'' @ qualified_name obj_type @ ''\"'')))
           | Some (typename, marshaller, wrap_state) \<Rightarrow>
               (case marshaller obj of
                  Inl e \<Rightarrow> Inl e
                | Inr state \<Rightarrow>
                    if wrap_state then wrap_callback self typename state else Inr state)))"

text \<open>
  The subscript \<^verbatim>\<open>unmarshallers[typename]\<close> with the value found in the tag slot: an
  unhashable value is a \<^verbatim>\<open>TypeError\<close>, which \<^verbatim>\<open>except KeyError\<close> does not catch; a
  hashable value that is not a string equals no key of the table.
\<close>

definition unhashable :: "pyval \<Rightarrow> py_error" where
  "unhashable v = TypeError (Text (''unhashable type: '' @ quoted (cls_qualname (class_of v))))"

fun find_unmarshaller :: "serializer \<Rightarrow> pyval \<Rightarrow> (cls option \<times> unmarshaller) option" where
  "find_unmarshaller ser (PStr n) = unmarshallers ser n"
| "find_unmarshaller ser v = None"

text \<open>
  \<^verbatim>\<open>default_decoder\<close>. The serializer is read only after the tag test, so an untagged
  value is returned even by a codec that has no serializer yet. With a class in the entry,
  the three statements \<^verbatim>\<open>instance = cls.__new__(cls)\<close>,
  \<^verbatim>\<open>unmarshaller(instance, marshalled_state)\<close> and \<^verbatim>\<open>return instance\<close>: what the
  unmarshaller returns is dropped, and the result is the instance as the call left it.
\<close>

definition default_decoder :: "codec \<Rightarrow> pyval \<Rightarrow> py_error + pyval" where
  "default_decoder self obj =
     (case unwrap_callback self obj of
        Inl e \<Rightarrow> Inl e
      | Inr (typename, marshalled_state) \<Rightarrow>
          if typename = PNone then Inr obj
          else
            (case serializer self of
               None \<Rightarrow> Inl no_serializer
             | Some ser \<Rightarrow>
                 if \<not> hashable typename then Inl (unhashable typename)
                 else
                   (case find_unmarshaller ser typename of
                      None \<Rightarrow>
                        Inl (LookupError
                          (Interp ''no unmarshaller found for type \"'' typename ''\"''))
                    | Some (cls, unmarshaller) \<Rightarrow>
                        (case cls of
                           Some c \<Rightarrow>
                             (case py_new c of
                                Inl e \<Rightarrow> Inl e
                              | Inr instance \<Rightarrow>
                                  (case call2 unmarshaller instance marshalled_state of
                                     Inl e \<Rightarrow> Inl e
                                   | Inr (ret, instance') \<Rightarrow> Inr instance'))
                         | None \<Rightarrow> call1 unmarshaller marshalled_state))))"

text \<open>Encoding, then decoding what the encoder returned.\<close>

definition roundtrip :: "codec \<Rightarrow> pyval \<Rightarrow> py_error + pyval" where
  "roundtrip self x =
     (case default_encoder self x of
        Inl e \<Rightarrow> Inl e
      | Inr v \<Rightarrow> default_decoder self v)"

text \<open>
  What the registered pair \<^verbatim>\<open>(cls, unmarshaller)\<close> makes of a state when it is used the
  way its entry says: filling a new instance of \<open>cls\<close>, or building the value from the
  state alone. The hypotheses "the unmarshaller inverts the marshaller" are stated with it.
\<close>

definition unmarshal_state :: "cls option \<Rightarrow> unmarshaller \<Rightarrow> pyval \<Rightarrow> py_error + pyval" where
  "unmarshal_state cls u state =
     (case cls of
        Some c \<Rightarrow>
          (case py_new c of
             Inl e \<Rightarrow> Inl e
           | Inr instance \<Rightarrow>
               (case call2 u instance state of
                  Inl e \<Rightarrow> Inl e
                | Inr (ret, instance') \<Rightarrow> Inr instance'))
      | None \<Rightarrow> call1 u state)"

text \<open>
  The spec's "two-entry composite whose value at the type key is present and non-null".
\<close>

fun tagged :: "'a codec_keys_scheme \<Rightarrow> pyval \<Rightarrow> bool" where
  "tagged self (PDict d) =
     (fcard (fmdom d) = 2 \<and>
      (case fmlookup d (type_key self) of None \<Rightarrow> False | Some t \<Rightarrow> t \<noteq> PNone))"
| "tagged self v = False"

section \<open>The scenario of the specification: a class \<open>Point\<close>\<close>

text \<open>
  \<^verbatim>\<open>Point\<close> inherits \<^verbatim>\<open>object.__new__\<close>; its \<^verbatim>\<open>__init__(self, x, y)\<close> needs two
  arguments, so \<^verbatim>\<open>Point()\<close> raises. \<^verbatim>\<open>Point3D\<close> is a subclass of it.
\<close>

definition Point_cls :: cls where
  "Point_cls =
     Cls ''geometry'' ''Point'' [object_cls] (NewInstance fmempty)
       (Inl (TypeError (Text ''__init__() missing 2 required positional arguments'')))"

definition Point3D_cls :: cls where
  "Point3D_cls =
     Cls ''geometry'' ''Point3D'' [Point_cls] (NewInstance fmempty)
       (Inl (TypeError (Text ''__init__() missing 3 required positional arguments'')))"

text \<open>
  A class whose \<^verbatim>\<open>__new__(cls, name)\<close> needs an argument, and a class whose
  \<^verbatim>\<open>__new__\<close> sets an attribute before \<^verbatim>\<open>__init__\<close> sets another.
\<close>

definition Named_cls :: cls where
  "Named_cls =
     Cls ''geometry'' ''Named'' [object_cls]
       (NewRaises (TypeError (Text ''__new__() missing 1 required positional argument'')))
       (Inr fmempty)"

definition Shape_cls :: cls where
  "Shape_cls =
     Cls ''geometry'' ''Shape'' [object_cls]
       (NewInstance (fmupd ''sides'' (PInt 0) fmempty))
       (Inr (fmupd ''ready'' (PBool True) fmempty))"

definition point :: "int \<Rightarrow> int \<Rightarrow> pyval" where
  "point x y = PObj Point_cls (fmupd ''y'' (PInt y) (fmupd ''x'' (PInt x) fmempty))"

definition point3d :: "int \<Rightarrow> int \<Rightarrow> int \<Rightarrow> pyval" where
  "point3d x y z =
     PObj Point3D_cls (fmupd ''z'' (PInt z) (fmupd ''y'' (PInt y) (fmupd ''x'' (PInt x) fmempty)))"

text \<open>The marshaller \<^verbatim>\<open>lambda p: {"x": p.x, "y": p.y}\<close>.\<close>

fun marshal_point :: "pyval \<Rightarrow> py_error + pyval" where
  "marshal_point (PObj c attrs) =
     (case fmlookup attrs ''x'' of
        None \<Rightarrow> Inl (AttributeError (Text ''x''))
      | Some x \<Rightarrow>
          (case fmlookup attrs ''y'' of
             None \<Rightarrow> Inl (AttributeError (Text ''y''))
           | Some y \<Rightarrow> Inr (PDict (fmupd ''y'' y (fmupd ''x'' x fmempty)))))"
| "marshal_point v = Inl (AttributeError (Text ''x''))"

text \<open>
  The unmarshaller \<^verbatim>\<open>lambda instance, state: instance.__dict__.update(state)\<close>; it
  returns \<open>None\<close>.
\<close>

fun unmarshal_point :: "pyval \<Rightarrow> pyval \<Rightarrow> py_error + pyval \<times> pyval" where
  "unmarshal_point (PObj c attrs) (PDict d) = Inr (PNone, PObj c (attrs ++\<^sub>f d))"
| "unmarshal_point inst state = Inl (TypeError (Text ''state is not a mapping''))"

text \<open>The unmarshaller \<^verbatim>\<open>lambda instance, state: None\<close>, which leaves the instance alone.\<close>

definition keep_instance :: "pyval \<Rightarrow> pyval \<Rightarrow> py_error + pyval \<times> pyval" where
  "keep_instance inst state = Inr (PNone, inst)"

text \<open>An unmarshaller that raises \<^verbatim>\<open>KeyError\<close> and a marshaller that does.\<close>

definition failing_unmarshaller :: "pyval \<Rightarrow> py_error + pyval" where
  "failing_unmarshaller state = Inl (KeyError (Text ''x''))"

definition failing_marshaller :: "pyval \<Rightarrow> py_error + pyval" where
  "failing_marshaller obj = Inl (KeyError (Text ''x''))"

definition point_serializer :: "bool \<Rightarrow> serializer" where
  "point_serializer wrap_state =
     \<lparr>marshallers = [Point_cls \<mapsto> (''Point'', marshal_point, wrap_state)],
      unmarshallers = [''Point'' \<mapsto> (Some Point_cls, Populate unmarshal_point)]\<rparr>"

text \<open>A registry whose entries name other classes as the class to instantiate.\<close>

definition factory_serializer :: serializer where
  "factory_serializer =
     \<lparr>marshallers = Map.empty,
      unmarshallers =
        [''Named'' \<mapsto> (Some Named_cls, Populate unmarshal_point),
         ''Shape'' \<mapsto> (Some Shape_cls, Populate unmarshal_point),
         ''int'' \<mapsto> (Some int_cls, Populate keep_instance)]\<rparr>"

definition failing_serializer :: serializer where
  "failing_serializer =
     \<lparr>marshallers = [Point_cls \<mapsto> (''Point'', failing_marshaller, True)],
      unmarshallers = [''Point'' \<mapsto> (None, Build failing_unmarshaller)]\<rparr>"

text \<open>Values as the deserializer hands them to the decoder.\<close>

definition circle_dict :: pyval where
  "circle_dict = PDict (fmupd ''state'' (PInt 3) (fmupd ''__type__'' (PStr ''Circle'') fmempty))"

definition point_dict :: pyval where
  "point_dict =
     PDict (fmupd ''state'' (PDict (fmupd ''y'' (PInt 2) (fmupd ''x'' (PInt 1) fmempty)))
       (fmupd ''__type__'' (PStr ''Point'') fmempty))"

definition stateless_dict :: "(string, pyval) fmap" where
  "stateless_dict = fmupd ''other'' (PInt 7) (fmupd ''__type__'' (PStr ''Point'') fmempty)"

section \<open>Wrapping and unwrapping\<close>

lemma unwrap_state_dict_PDict:
  "unwrap_state_dict self (PDict d) =
     (if fcard (fmdom d) = 2 then
        (case fmlookup d (type_key self) of
           None \<Rightarrow> Inr (PNone, PNone)
         | Some t \<Rightarrow>
             if t \<noteq> PNone
             then Inr (t, case fmlookup d (state_key self) of None \<Rightarrow> PNone | Some v \<Rightarrow> v)
             else Inr (PNone, PNone))
      else Inr (PNone, PNone))"
  by (simp add: unwrap_state_dict_def split: option.splits)

lemma unwrap_wrap:
  assumes "type_key self \<noteq> state_key self"
  shows "unwrap_state_dict self (wrap_state_dict self t s) = Inr (PStr t, s)"
  using assms by (simp add: wrap_state_dict_def unwrap_state_dict_PDict fcard_finsert_if)

text \<open>
  Claim C3 (tag-shape invariant). For every type name and state, \<open>wrap_state_dict\<close> returns
  a dictionary whose keys are exactly the configured type key and state key (two entries
  when the two keys differ). \<open>unwrap_state_dict\<close> returns the pair \<open>(None, None)\<close> on
  every dictionary that lacks the type key, holds \<open>None\<close> there, or does not have exactly
  two entries.
\<close>

theorem tag_shape_invariant:
  "(\<exists>w. wrap_state_dict self t s = PDict w
        \<and> fmdom w = {|type_key self, state_key self|}
        \<and> (type_key self \<noteq> state_key self \<longrightarrow> fcard (fmdom w) = 2))
   \<and> (fmlookup d (type_key self) = None \<or> fmlookup d (type_key self) = Some PNone
        \<or> fcard (fmdom d) \<noteq> 2
       \<longrightarrow> unwrap_state_dict self (PDict d) = Inr (PNone, PNone))"
proof (intro conjI impI)
  let ?w = "fmupd (state_key self) s (fmupd (type_key self) (PStr t) fmempty)"
  have "wrap_state_dict self t s = PDict ?w"
    by (simp add: wrap_state_dict_def)
  moreover have "fmdom ?w = {|type_key self, state_key self|}"
    by auto
  moreover have "type_key self \<noteq> state_key self \<longrightarrow> fcard (fmdom ?w) = 2"
    by (simp add: fcard_finsert_if)
  ultimately show "\<exists>w. wrap_state_dict self t s = PDict w
        \<and> fmdom w = {|type_key self, state_key self|}
        \<and> (type_key self \<noteq> state_key self \<longrightarrow> fcard (fmdom w) = 2)"
    by blast
next
  assume "fmlookup d (type_key self) = None \<or> fmlookup d (type_key self) = Some PNone
        \<or> fcard (fmdom d) \<noteq> 2"
  then show "unwrap_state_dict self (PDict d) = Inr (PNone, PNone)"
    by (auto simp: unwrap_state_dict_PDict)
qed

theorem tag_shape_invariant_witness:
  "fmlookup (fmupd ''y'' (PInt 2) (fmupd ''x'' (PInt 1) fmempty)) ''__type__'' = None
   \<and> unwrap_state_dict \<lparr>type_key = ''__type__'', state_key = ''state''\<rparr>
        (PDict (fmupd ''y'' (PInt 2) (fmupd ''x'' (PInt 1) fmempty))) = Inr (PNone, PNone)
   \<and> fcard (fmdom (fmupd ''state'' PNone (fmupd ''__type__'' (PStr ''Point'') fmempty))) = 2"
  using tag_shape_invariant [of "\<lparr>type_key = ''__type__'', state_key = ''state''\<rparr>"
      "''Point''" PNone "fmupd ''y'' (PInt 2) (fmupd ''x'' (PInt 1) fmempty)"]
  by (simp add: wrap_state_dict_def fcard_finsert_if)

section \<open>Decoder\<close>

lemma default_decoder_untagged:
  assumes "unwrap_callback self v = Inr (PNone, st)"
  shows "default_decoder self v = Inr v"
  using assms by (simp add: default_decoder_def)

lemma default_decoder_tagged:
  assumes "unwrap_callback self v = Inr (tag, st)" and "tag \<noteq> PNone" and "hashable tag"
    and "serializer self = Some ser"
  shows "default_decoder self v =
     (case find_unmarshaller ser tag of
        None \<Rightarrow> Inl (LookupError (Interp ''no unmarshaller found for type \"'' tag ''\"''))
      | Some (c, u) \<Rightarrow> unmarshal_state c u st)"
  using assms
  by (simp add: default_decoder_def unmarshal_state_def split: option.splits sum.splits)

lemma default_decoder_unhashable:
  assumes "unwrap_callback self v = Inr (tag, st)" and "\<not> hashable tag"
    and "serializer self = Some ser"
  shows "default_decoder self v = Inl (unhashable tag)"
proof -
  from assms(2) have "tag \<noteq> PNone" by (cases tag) simp_all
  with assms show ?thesis by (simp add: default_decoder_def)
qed

lemma init_callbacks [simp]:
  "unwrap_callback (init tk sk) = unwrap_state_dict \<lparr>type_key = tk, state_key = sk\<rparr>"
  "wrap_callback (init tk sk) t s = Inr (wrap_state_dict \<lparr>type_key = tk, state_key = sk\<rparr> t s)"
  "type_key (init tk sk) = tk" "state_key (init tk sk) = sk"
  "serializer (init tk sk) = None"
  by (simp_all add: init_def)

lemma attach_fields [simp]:
  "unwrap_callback (attach self ser) = unwrap_callback self"
  "wrap_callback (attach self ser) = wrap_callback self"
  "type_key (attach self ser) = type_key self" "state_key (attach self ser) = state_key self"
  "serializer (attach self ser) = Some ser"
  by (simp_all add: attach_def)

lemma unwrap_state_dict_not_tagged:
  assumes "\<not> tagged self v" and "(\<exists>d. v = PDict d) \<or> (\<exists>n. py_len v = Inr n \<and> n \<noteq> 2)"
  shows "unwrap_state_dict self v = Inr (PNone, PNone)"
proof (cases v)
  case (PDict d)
  with assms(1) show ?thesis
    by (auto simp: unwrap_state_dict_PDict split: option.splits)
next
  case (PStr s)
  with assms(2) show ?thesis by (simp add: unwrap_state_dict_def)
next
  case (PList xs)
  with assms(2) show ?thesis by (simp add: unwrap_state_dict_def)
qed (use assms(2) in simp_all)

text \<open>
  Claim C2 (pass-through law), as the specification states it, for every primitive value:
  it fails on a number, where \<^verbatim>\<open>len(obj)\<close> raises \<^verbatim>\<open>TypeError\<close>.
\<close>

theorem pass_through_counterexample:
  "\<not> tagged default_codec (PInt 5)
   \<and> default_decoder default_codec (PInt 5)
       = Inl (TypeError (Text (''object of type '' @ quoted ''int'' @ '' has no len()'')))
   \<and> default_decoder default_codec (PInt 5) \<noteq> Inr (PInt 5)"
  by (simp add: default_decoder_def default_codec_def unwrap_state_dict_def int_cls_def)

text \<open>
  Claim C2, amended. A value that is not a tagged dictionary is returned unchanged by
  \<open>default_decoder\<close> when it is a dictionary, or a string or list whose length is not 2;
  this holds whether or not a serializer is attached to the codec.
\<close>

theorem pass_through:
  assumes "\<not> tagged \<lparr>type_key = tk, state_key = sk\<rparr> v"
    and "(\<exists>d. v = PDict d) \<or> (\<exists>n. py_len v = Inr n \<and> n \<noteq> 2)"
  shows "default_decoder (init tk sk) v = Inr v
       \<and> default_decoder (attach (init tk sk) ser) v = Inr v"
proof -
  have "unwrap_state_dict \<lparr>type_key = tk, state_key = sk\<rparr> v = Inr (PNone, PNone)"
    using assms by (rule unwrap_state_dict_not_tagged)
  then show ?thesis
    by (simp add: default_decoder_untagged)
qed

theorem pass_through_witness:
  "default_decoder default_codec (PDict (fmupd ''y'' (PInt 2) (fmupd ''x'' (PInt 1) fmempty)))
     = Inr (PDict (fmupd ''y'' (PInt 2) (fmupd ''x'' (PInt 1) fmempty)))
   \<and> default_decoder default_codec (PStr ''abc'') = Inr (PStr ''abc'')"
  using pass_through [of "''__type__''" "''state''"
      "PDict (fmupd ''y'' (PInt 2) (fmupd ''x'' (PInt 1) fmempty))"]
    pass_through [of "''__type__''" "''state''" "PStr ''abc''"]
  by (simp add: default_codec_def fcard_finsert_if)

section \<open>Encoder\<close>

lemma default_encoder_unregistered:
  assumes "serializer self = Some ser" and "marshallers ser (class_of x) = None"
  shows "default_encoder self x =
     Inl (LookupError (Text (''no marshaller found for type \"'' @ qualified_name (class_of x) @ ''\"'')))"
  using assms by (simp add: default_encoder_def)

lemma default_encoder_registered:
  assumes "serializer self = Some ser" and "marshallers ser (class_of x) = Some (t, m, w)"
  shows "default_encoder self x =
     (case m x of
        Inl e \<Rightarrow> Inl e
      | Inr state \<Rightarrow> if w then wrap_callback self t state else Inr state)"
  using assms by (simp add: default_encoder_def)

lemmas scenario_defs =
  point_serializer_def failing_serializer_def point_def point3d_def Point_cls_def
  Point3D_cls_def object_cls_def default_codec_def failing_marshaller_def
  failing_unmarshaller_def

text \<open>
  Claim C6 (wrap flag). For an instance whose exact class is registered with marshaller
  \<open>m\<close>, and whose marshalling returns \<open>state\<close>: when the entry's flag is false the
  encoder returns \<open>state\<close> as it is; when the flag is true it returns what the configured
  wrap callback makes of the type name and \<open>state\<close>.
\<close>

theorem encoder_wrap_flag:
  assumes "marshallers ser (class_of x) = Some (t, m, w)" and "m x = Inr state"
  shows "(\<not> w \<longrightarrow> default_encoder (attach self ser) x = Inr state)
       \<and> (w \<longrightarrow> default_encoder (attach self ser) x = wrap_callback self t state)"
  using assms by (simp add: default_encoder_registered [where ser = ser])

theorem encoder_wrap_flag_witness:
  "default_encoder (attach default_codec (point_serializer False)) (point 1 2)
     = Inr (PDict (fmupd ''y'' (PInt 2) (fmupd ''x'' (PInt 1) fmempty)))
   \<and> default_encoder (attach default_codec (point_serializer True)) (point 1 2)
     = Inr (PDict (fmupd ''state'' (PDict (fmupd ''y'' (PInt 2) (fmupd ''x'' (PInt 1) fmempty)))
                  (fmupd ''__type__'' (PStr ''Point'') fmempty)))"
  using encoder_wrap_flag [of "point_serializer False" "point 1 2" "''Point''" marshal_point False
      "PDict (fmupd ''y'' (PInt 2) (fmupd ''x'' (PInt 1) fmempty))" default_codec]
    encoder_wrap_flag [of "point_serializer True" "point 1 2" "''Point''" marshal_point True
      "PDict (fmupd ''y'' (PInt 2) (fmupd ''x'' (PInt 1) fmempty))" default_codec]
  by (simp add: scenario_defs wrap_state_dict_def)

text \<open>
  Claim C10 (exact-class dispatch). When the exact class of the instance has no entry in
  the marshal table, the encoder raises the \<^verbatim>\<open>LookupError\<close> naming that class, even when
  one of its superclasses has an entry. More generally the encoder reads the table at the
  exact class only: two tables that agree there give the same result.
\<close>

theorem encoder_exact_class:
  "(marshallers ser (class_of x) = None \<and> b \<in> set (superclasses (class_of x))
      \<and> marshallers ser b = Some entry
     \<longrightarrow> default_encoder (attach self ser) x =
         Inl (LookupError (Text
           (''no marshaller found for type \"'' @ qualified_name (class_of x) @ ''\"''))))
   \<and> (marshallers ser' (class_of x) = marshallers ser (class_of x)
     \<longrightarrow> default_encoder (attach self ser') x = default_encoder (attach self ser) x)"
proof (intro conjI impI)
  assume "marshallers ser (class_of x) = None \<and> b \<in> set (superclasses (class_of x))
      \<and> marshallers ser b = Some entry"
  then have "marshallers ser (class_of x) = None" by simp
  then show "default_encoder (attach self ser) x =
      Inl (LookupError (Text
        (''no marshaller found for type \"'' @ qualified_name (class_of x) @ ''\"'')))"
    by (simp add: default_encoder_unregistered [where ser = ser])
next
  assume same: "marshallers ser' (class_of x) = marshallers ser (class_of x)"
  show "default_encoder (attach self ser') x = default_encoder (attach self ser) x"
  proof (cases "marshallers ser (class_of x)")
    case None
    with same show ?thesis
      by (simp add: default_encoder_unregistered [where ser = ser]
          default_encoder_unregistered [where ser = ser'])
  next
    case (Some entry')
    obtain t m w where "entry' = (t, m, w)" by (cases entry')
    with Some same show ?thesis
      by (simp add: default_encoder_registered [where ser = ser]
          default_encoder_registered [where ser = ser'] split: sum.splits)
  qed
qed

theorem encoder_exact_class_witness:
  "marshallers (point_serializer True) (class_of (point3d 1 2 3)) = None
   \<and> Point_cls \<in> set (superclasses (class_of (point3d 1 2 3)))
   \<and> marshallers (point_serializer True) Point_cls = Some (''Point'', marshal_point, True)
   \<and> default_encoder (attach default_codec (point_serializer True)) (point3d 1 2 3)
       = Inl (LookupError (Text ''no marshaller found for type \"geometry.Point3D\"''))"
  using encoder_exact_class [of "point_serializer True" "point3d 1 2 3" Point_cls
      "(''Point'', marshal_point, True)" default_codec "point_serializer True"]
  by (simp add: scenario_defs qualified_name_def)

section \<open>Errors\<close>

lemma default_decoder_named:
  assumes "unwrap_callback self v = Inr (PStr n, st)"
  shows "default_decoder (attach self ser) v =
     (case unmarshallers ser n of
        None \<Rightarrow> Inl (LookupError (Interp ''no unmarshaller found for type \"'' (PStr n) ''\"''))
      | Some (c, u) \<Rightarrow> unmarshal_state c u st)"
  using assms by (simp add: default_decoder_tagged [where ser = ser and st = st])

text \<open>
  Claim C4 (unknown type, unknown tag). Encoding an instance whose exact class has no entry
  in the marshal table raises \<^verbatim>\<open>LookupError\<close> with the qualified name of the class in
  its message; decoding a value that the unwrap callback recognises as tagged with a type
  name that has no entry in the unmarshal table raises \<^verbatim>\<open>LookupError\<close> with that name
  in its message. The error comes from the failed lookup only: when the lookup succeeds,
  any error of the call was raised by the marshaller, the wrap callback or the
  unmarshaller.
\<close>

theorem unknown_type_errors:
  "(marshallers ser (class_of x) = None
      \<longrightarrow> default_encoder (attach self ser) x =
          Inl (LookupError (Text
            (''no marshaller found for type \"'' @ qualified_name (class_of x) @ ''\"''))))
   \<and> (marshallers ser (class_of x) = Some (t, m, w)
        \<and> default_encoder (attach self ser) x = Inl e
      \<longrightarrow> m x = Inl e \<or> (\<exists>state. m x = Inr state \<and> w \<and> wrap_callback self t state = Inl e))
   \<and> (unwrap_callback self v = Inr (PStr n, st) \<and> unmarshallers ser n = None
      \<longrightarrow> default_decoder (attach self ser) v =
            Inl (LookupError (Interp ''no unmarshaller found for type \"'' (PStr n) ''\"''))
          \<and> message_text (Interp ''no unmarshaller found for type \"'' (PStr n) ''\"'')
            = Some (''no unmarshaller found for type \"'' @ n @ ''\"''))
   \<and> (unwrap_callback self v = Inr (PStr n, st) \<and> unmarshallers ser n = Some (c, u)
        \<and> default_decoder (attach self ser) v = Inl e'
      \<longrightarrow> unmarshal_state c u st = Inl e')"
proof (intro conjI impI)
  assume "marshallers ser (class_of x) = None"
  then show "default_encoder (attach self ser) x =
      Inl (LookupError (Text
        (''no marshaller found for type \"'' @ qualified_name (class_of x) @ ''\"'')))"
    by (simp add: default_encoder_unregistered [where ser = ser])
next
  assume "marshallers ser (class_of x) = Some (t, m, w)
      \<and> default_encoder (attach self ser) x = Inl e"
  then show "m x = Inl e \<or> (\<exists>state. m x = Inr state \<and> w \<and> wrap_callback self t state = Inl e)"
    by (auto simp: default_encoder_registered [where ser = ser] split: sum.splits if_splits)
next
  assume "unwrap_callback self v = Inr (PStr n, st) \<and> unmarshallers ser n = None"
  then show "default_decoder (attach self ser) v =
      Inl (LookupError (Interp ''no unmarshaller found for type \"'' (PStr n) ''\"''))"
    by (simp add: default_decoder_named)
next
  show "message_text (Interp ''no unmarshaller found for type \"'' (PStr n) ''\"'')
      = Some (''no unmarshaller found for type \"'' @ n @ ''\"'')"
    by simp
next
  assume "unwrap_callback self v = Inr (PStr n, st) \<and> unmarshallers ser n = Some (c, u)
      \<and> default_decoder (attach self ser) v = Inl e'"
  then have "unwrap_callback self v = Inr (PStr n, st)"
    and "unmarshallers ser n = Some (c, u)"
    and "default_decoder (attach self ser) v = Inl e'"
    by simp_all
  then show "unmarshal_state c u st = Inl e'"
    using default_decoder_named [of self v n st ser] by simp
qed

lemma unwrap_circle_dict:
  "unwrap_callback default_codec circle_dict = Inr (PStr ''Circle'', PInt 3)"
  by (simp add: default_codec_def circle_dict_def unwrap_state_dict_PDict fcard_finsert_if)

lemma unwrap_point_dict:
  "unwrap_callback default_codec point_dict
     = Inr (PStr ''Point'', PDict (fmupd ''y'' (PInt 2) (fmupd ''x'' (PInt 1) fmempty)))"
  by (simp add: default_codec_def point_dict_def unwrap_state_dict_PDict fcard_finsert_if)

theorem unknown_type_errors_witness:
  "default_encoder (attach default_codec (point_serializer True)) (point3d 1 2 3)
     = Inl (LookupError (Text ''no marshaller found for type \"geometry.Point3D\"''))
   \<and> default_decoder (attach default_codec (point_serializer True)) circle_dict
     = Inl (LookupError (Interp ''no unmarshaller found for type \"'' (PStr ''Circle'') ''\"''))
   \<and> failing_marshaller (point 1 2) = Inl (KeyError (Text ''x''))
   \<and> unmarshal_state None (Build failing_unmarshaller)
        (PDict (fmupd ''y'' (PInt 2) (fmupd ''x'' (PInt 1) fmempty))) = Inl (KeyError (Text ''x''))"
proof -
  have enc: "default_encoder (attach default_codec failing_serializer) (point 1 2)
      = Inl (KeyError (Text ''x''))"
    by (simp add: default_encoder_def scenario_defs)
  have dec: "default_decoder (attach default_codec failing_serializer) point_dict
      = Inl (KeyError (Text ''x''))"
    by (simp add: default_decoder_named [OF unwrap_point_dict] failing_serializer_def
        unmarshal_state_def failing_unmarshaller_def)
  show ?thesis
    using unknown_type_errors [where ser = "point_serializer True" and x = "point3d 1 2 3"
        and self = default_codec and v = circle_dict and n = "''Circle''" and st = "PInt 3"]
      unknown_type_errors [where ser = failing_serializer and x = "point 1 2"
        and self = default_codec and t = "''Point''" and m = failing_marshaller and w = True
        and e = "KeyError (Text ''x'')" and v = point_dict and n = "''Point''"
        and st = "PDict (fmupd ''y'' (PInt 2) (fmupd ''x'' (PInt 1) fmempty))"
        and c = None and u = "Build failing_unmarshaller" and e' = "KeyError (Text ''x'')"]
      enc dec unwrap_circle_dict unwrap_point_dict
    by (simp add: scenario_defs qualified_name_def)
qed

text \<open>
  Claim C8 (errors of user code). An error raised by the registered marshaller is the
  result of \<open>default_encoder\<close>, and an error raised by the registered unmarshaller is the
  result of \<open>default_decoder\<close>, unchanged; this includes a \<^verbatim>\<open>KeyError\<close>, which is not
  turned into the codec's \<^verbatim>\<open>LookupError\<close>.
\<close>

theorem user_errors_propagate:
  "(marshallers ser (class_of x) = Some (t, m, w) \<and> m x = Inl e
      \<longrightarrow> default_encoder (attach self ser) x = Inl e)
   \<and> (unwrap_callback self v = Inr (PStr n, st) \<and> unmarshallers ser n = Some (c, u)
        \<and> unmarshal_state c u st = Inl e'
      \<longrightarrow> default_decoder (attach self ser) v = Inl e')"
proof (intro conjI impI)
  assume "marshallers ser (class_of x) = Some (t, m, w) \<and> m x = Inl e"
  then show "default_encoder (attach self ser) x = Inl e"
    by (simp add: default_encoder_registered [where ser = ser])
next
  assume "unwrap_callback self v = Inr (PStr n, st) \<and> unmarshallers ser n = Some (c, u)
      \<and> unmarshal_state c u st = Inl e'"
  then show "default_decoder (attach self ser) v = Inl e'"
    by (simp add: default_decoder_named)
qed

theorem user_errors_propagate_witness:
  "default_encoder (attach default_codec failing_serializer) (point 1 2)
     = Inl (KeyError (Text ''x''))
   \<and> default_decoder (attach default_codec failing_serializer) point_dict
     = Inl (KeyError (Text ''x''))"
  using user_errors_propagate [where ser = failing_serializer and x = "point 1 2"
      and self = default_codec and t = "''Point''" and m = failing_marshaller and w = True
      and e = "KeyError (Text ''x'')" and v = point_dict and n = "''Point''"
      and st = "PDict (fmupd ''y'' (PInt 2) (fmupd ''x'' (PInt 1) fmempty))"
      and c = None and u = "Build failing_unmarshaller" and e' = "KeyError (Text ''x'')"]
    unwrap_point_dict
  by (simp add: scenario_defs unmarshal_state_def)

text \<open>
  Claim C5 (factory present or absent). For a value recognised as tagged with a registered
  type name. When the entry holds a class, the decoder allocates with
  \<^verbatim>\<open>cls.__new__(cls)\<close>, calls the unmarshaller with the allocated instance and the state,
  drops what the unmarshaller returns and returns that instance as the call left it; an
  error of the allocation or of the call is the result. For a class whose \<^verbatim>\<open>__new__\<close>
  makes a new instance, the unmarshaller receives an instance of that class holding the
  attributes \<^verbatim>\<open>__new__\<close> set (none for \<^verbatim>\<open>object.__new__\<close>) and none of those the
  initializer would set: \<^verbatim>\<open>__init__\<close> does not run. When the entry holds no class, the
  decoder returns what the unmarshaller returns for the state.
\<close>

theorem decoder_dispatch:
  assumes "unwrap_callback self v = Inr (PStr n, st)"
  shows "(unmarshallers ser n = Some (Some c, u)
            \<longrightarrow> default_decoder (attach self ser) v =
                (case py_new c of
                   Inl e \<Rightarrow> Inl e
                 | Inr inst \<Rightarrow>
                     (case call2 u inst st of
                        Inl e \<Rightarrow> Inl e
                      | Inr (ret, inst') \<Rightarrow> Inr inst')))
       \<and> (unmarshallers ser n = Some (Some c, Populate f) \<and> cls_new c = NewInstance attrs
              \<and> f (PObj c attrs) st = Inr (ret, PObj c' attrs')
            \<longrightarrow> default_decoder (attach self ser) v = Inr (PObj c' attrs'))
       \<and> (unmarshallers ser n = Some (None, u)
            \<longrightarrow> default_decoder (attach self ser) v = call1 u st)"
proof (intro conjI impI)
  assume "unmarshallers ser n = Some (Some c, u)"
  with assms show "default_decoder (attach self ser) v =
      (case py_new c of
         Inl e \<Rightarrow> Inl e
       | Inr inst \<Rightarrow>
           (case call2 u inst st of Inl e \<Rightarrow> Inl e | Inr (ret, inst') \<Rightarrow> Inr inst'))"
    by (simp add: default_decoder_named unmarshal_state_def)
next
  assume "unmarshallers ser n = Some (Some c, Populate f) \<and> cls_new c = NewInstance attrs
      \<and> f (PObj c attrs) st = Inr (ret, PObj c' attrs')"
  with assms show "default_decoder (attach self ser) v = Inr (PObj c' attrs')"
    by (simp add: default_decoder_named unmarshal_state_def py_new_def)
next
  assume "unmarshallers ser n = Some (None, u)"
  with assms show "default_decoder (attach self ser) v = call1 u st"
    by (simp add: default_decoder_named unmarshal_state_def)
qed

lemma unwrap_default:
  "unwrap_callback default_codec (wrap_state_dict default_codec t st) = Inr (PStr t, st)"
  by (simp add: default_codec_def wrap_state_dict_def unwrap_state_dict_PDict fcard_finsert_if)

lemma py_new_Point: "py_new Point_cls = Inr (PObj Point_cls fmempty)"
  by (simp add: py_new_def Point_cls_def)

lemma construct_Point:
  "construct Point_cls
     = Inl (TypeError (Text ''__init__() missing 2 required positional arguments''))"
  by (simp add: construct_def py_new_def py_init_def isinstance_def Point_cls_def)

lemma construct_Shape:
  "construct Shape_cls
     = Inr (PObj Shape_cls (fmupd ''ready'' (PBool True) (fmupd ''sides'' (PInt 0) fmempty)))"
  by (simp add: construct_def py_new_def py_init_def isinstance_def Shape_cls_def)

theorem decoder_dispatch_witness:
  "default_decoder (attach default_codec (point_serializer True)) point_dict = Inr (point 1 2)
   \<and> construct Point_cls
     = Inl (TypeError (Text ''__init__() missing 2 required positional arguments''))
   \<and> default_decoder (attach default_codec factory_serializer)
       (wrap_state_dict default_codec ''Shape'' (PDict fmempty))
     = Inr (PObj Shape_cls (fmupd ''sides'' (PInt 0) fmempty))
   \<and> construct Shape_cls
     = Inr (PObj Shape_cls (fmupd ''ready'' (PBool True) (fmupd ''sides'' (PInt 0) fmempty)))
   \<and> default_decoder (attach default_codec factory_serializer)
       (wrap_state_dict default_codec ''int'' (PDict fmempty))
     = Inr (PInt 0)
   \<and> default_decoder (attach default_codec factory_serializer)
       (wrap_state_dict default_codec ''Named'' (PDict fmempty))
     = Inl (TypeError (Text ''__new__() missing 1 required positional argument''))
   \<and> default_decoder (attach default_codec failing_serializer) point_dict
     = failing_unmarshaller (PDict (fmupd ''y'' (PInt 2) (fmupd ''x'' (PInt 1) fmempty)))"
proof -
  have "py_new Named_cls
      = Inl (TypeError (Text ''__new__() missing 1 required positional argument''))"
    and "py_new int_cls = Inr (PInt 0)"
    and "cls_new Shape_cls = NewInstance (fmupd ''sides'' (PInt 0) fmempty)"
    and "cls_new Point_cls = NewInstance fmempty"
    by (simp_all add: py_new_def Named_cls_def int_cls_def Shape_cls_def Point_cls_def)
  then show ?thesis
    using decoder_dispatch [OF unwrap_point_dict, of "point_serializer True" Point_cls _
        unmarshal_point fmempty PNone Point_cls
        "fmupd ''y'' (PInt 2) (fmupd ''x'' (PInt 1) fmempty)"]
      decoder_dispatch [OF unwrap_default, of factory_serializer "''Shape''" Shape_cls _
        "PDict fmempty" unmarshal_point "fmupd ''sides'' (PInt 0) fmempty" PNone
        Shape_cls "fmupd ''sides'' (PInt 0) fmempty"]
      decoder_dispatch [OF unwrap_default, of factory_serializer "''int''" int_cls
        "Populate keep_instance" "PDict fmempty"]
      decoder_dispatch [OF unwrap_default, of factory_serializer "''Named''" Named_cls
        "Populate unmarshal_point" "PDict fmempty"]
      decoder_dispatch [OF unwrap_point_dict, of failing_serializer _ "Build failing_unmarshaller"]
      construct_Point construct_Shape
    by (simp add: factory_serializer_def point_serializer_def failing_serializer_def point_def
        keep_instance_def)
qed

section \<open>Round trips\<close>

text \<open>
  Claim C9 (missing state key). A two-entry dictionary whose type key holds a value other
  than \<open>None\<close> and which has no state key is unwrapped to that value and the state
  \<open>None\<close>, not to \<open>(None, None)\<close>; the decoder then hands the state \<open>None\<close> to the
  registered unmarshaller.
\<close>

theorem missing_state_key:
  assumes "fcard (fmdom d) = 2" and "fmlookup d tk = Some tag" and "tag \<noteq> PNone"
    and "fmlookup d sk = None"
  shows "unwrap_state_dict \<lparr>type_key = tk, state_key = sk\<rparr> (PDict d) = Inr (tag, PNone)
       \<and> (tag = PStr n \<and> unmarshallers ser n = Some (c, u)
            \<longrightarrow> default_decoder (attach (init tk sk) ser) (PDict d) = unmarshal_state c u PNone)"
proof -
  have unwrap: "unwrap_state_dict \<lparr>type_key = tk, state_key = sk\<rparr> (PDict d) = Inr (tag, PNone)"
    using assms by (simp add: unwrap_state_dict_PDict)
  have "default_decoder (attach (init tk sk) ser) (PDict d) = unmarshal_state c u PNone"
    if "tag = PStr n" and "unmarshallers ser n = Some (c, u)"
    using that unwrap default_decoder_named [of "init tk sk" "PDict d" n PNone ser] by simp
  with unwrap show ?thesis by blast
qed

theorem missing_state_key_witness:
  "fcard (fmdom stateless_dict) = 2
   \<and> fmlookup stateless_dict ''__type__'' = Some (PStr ''Point'')
   \<and> fmlookup stateless_dict ''state'' = None
   \<and> unwrap_state_dict \<lparr>type_key = ''__type__'', state_key = ''state''\<rparr> (PDict stateless_dict)
       = Inr (PStr ''Point'', PNone)
   \<and> default_decoder (attach default_codec (point_serializer True)) (PDict stateless_dict)
       = Inl (TypeError (Text ''state is not a mapping''))"
  using missing_state_key [of stateless_dict "''__type__''" "PStr ''Point''" "''state''"
      "''Point''" "point_serializer True" "Some Point_cls" "Populate unmarshal_point"]
  by (simp add: stateless_dict_def fcard_finsert_if point_serializer_def default_codec_def
      unmarshal_state_def py_new_Point)

text \<open>
  Claim C1 (round-trip law), as the specification states it, for every registered type
  whatever its wrap flag: it fails when the flag is false, where the decoder receives the
  bare state and returns it, and when the type key and the state key are the same string,
  where the wrapped dictionary has a single entry.
\<close>

theorem roundtrip_counterexample:
  "marshallers (point_serializer False) (class_of (point 1 2))
     = Some (''Point'', marshal_point, False)
   \<and> unmarshallers (point_serializer False) ''Point''
     = Some (Some Point_cls, Populate unmarshal_point)
   \<and> marshal_point (point 1 2) = Inr (PDict (fmupd ''y'' (PInt 2) (fmupd ''x'' (PInt 1) fmempty)))
   \<and> unmarshal_state (Some Point_cls) (Populate unmarshal_point)
        (PDict (fmupd ''y'' (PInt 2) (fmupd ''x'' (PInt 1) fmempty))) = Inr (point 1 2)
   \<and> roundtrip (attach default_codec (point_serializer False)) (point 1 2)
     = Inr (PDict (fmupd ''y'' (PInt 2) (fmupd ''x'' (PInt 1) fmempty)))
   \<and> roundtrip (attach default_codec (point_serializer False)) (point 1 2) \<noteq> Inr (point 1 2)
   \<and> roundtrip (attach (init ''k'' ''k'') (point_serializer True)) (point 1 2)
     = Inr (PDict (fmupd ''k'' (PDict (fmupd ''y'' (PInt 2) (fmupd ''x'' (PInt 1) fmempty))) fmempty))
   \<and> roundtrip (attach (init ''k'' ''k'') (point_serializer True)) (point 1 2) \<noteq> Inr (point 1 2)"
proof -
  have st: "marshal_point (point 1 2)
      = Inr (PDict (fmupd ''y'' (PInt 2) (fmupd ''x'' (PInt 1) fmempty)))"
    by (simp add: point_def)
  have inv: "unmarshal_state (Some Point_cls) (Populate unmarshal_point)
      (PDict (fmupd ''y'' (PInt 2) (fmupd ''x'' (PInt 1) fmempty))) = Inr (point 1 2)"
    by (simp add: unmarshal_state_def py_new_Point point_def)
  have enc1: "default_encoder (attach default_codec (point_serializer False)) (point 1 2)
      = Inr (PDict (fmupd ''y'' (PInt 2) (fmupd ''x'' (PInt 1) fmempty)))"
    using st by (simp add: default_encoder_def point_serializer_def point_def)
  have dec1: "default_decoder (attach default_codec (point_serializer False))
      (PDict (fmupd ''y'' (PInt 2) (fmupd ''x'' (PInt 1) fmempty)))
      = Inr (PDict (fmupd ''y'' (PInt 2) (fmupd ''x'' (PInt 1) fmempty)))"
    by (rule default_decoder_untagged [where st = PNone])
      (simp add: default_codec_def unwrap_state_dict_PDict)
  have rt1: "roundtrip (attach default_codec (point_serializer False)) (point 1 2)
      = Inr (PDict (fmupd ''y'' (PInt 2) (fmupd ''x'' (PInt 1) fmempty)))"
    by (simp add: roundtrip_def enc1 dec1)
  have enc2: "default_encoder (attach (init ''k'' ''k'') (point_serializer True)) (point 1 2)
      = Inr (PDict (fmupd ''k'' (PDict (fmupd ''y'' (PInt 2) (fmupd ''x'' (PInt 1) fmempty))) fmempty))"
    using st by (simp add: default_encoder_def point_serializer_def point_def wrap_state_dict_def)
  have dec2: "default_decoder (attach (init ''k'' ''k'') (point_serializer True))
      (PDict (fmupd ''k'' (PDict (fmupd ''y'' (PInt 2) (fmupd ''x'' (PInt 1) fmempty))) fmempty))
      = Inr (PDict (fmupd ''k'' (PDict (fmupd ''y'' (PInt 2) (fmupd ''x'' (PInt 1) fmempty))) fmempty))"
    by (rule default_decoder_untagged [where st = PNone])
      (simp add: unwrap_state_dict_PDict fcard_finsert_if fcard_fempty)
  have rt2: "roundtrip (attach (init ''k'' ''k'') (point_serializer True)) (point 1 2)
      = Inr (PDict (fmupd ''k'' (PDict (fmupd ''y'' (PInt 2) (fmupd ''x'' (PInt 1) fmempty))) fmempty))"
    by (simp add: roundtrip_def enc2 dec2)
  show ?thesis
    unfolding rt1 rt2 using st inv
    by (simp add: point_serializer_def point_def)
qed

text \<open>
  Claim C1, amended. With distinct type and state keys and the codec's own wrap and unwrap
  methods, for a class registered with the wrap flag set and a type name registered in the
  unmarshal table: when the unmarshaller turns the marshalled state of \<open>x\<close> into a value
  that the per-type equality \<open>eq\<close> relates to \<open>x\<close>, decoding the encoding of \<open>x\<close>
  returns such a value.
\<close>

theorem roundtrip_wrapped:
  assumes "tk \<noteq> sk"
    and "marshallers ser (class_of x) = Some (t, m, True)"
    and "m x = Inr st"
    and "unmarshallers ser t = Some (c, u)"
    and "\<exists>y. unmarshal_state c u st = Inr y \<and> eq y x"
  shows "\<exists>y. roundtrip (attach (init tk sk) ser) x = Inr y \<and> eq y x"
proof -
  let ?keys = "\<lparr>type_key = tk, state_key = sk\<rparr>"
  have enc: "default_encoder (attach (init tk sk) ser) x = Inr (wrap_state_dict ?keys t st)"
    using assms(2,3) by (simp add: default_encoder_registered [where ser = ser])
  have "unwrap_callback (init tk sk) (wrap_state_dict ?keys t st) = Inr (PStr t, st)"
    using assms(1) by (simp add: unwrap_wrap)
  then have "default_decoder (attach (init tk sk) ser) (wrap_state_dict ?keys t st)
      = unmarshal_state c u st"
    using assms(4) by (simp add: default_decoder_named)
  with enc have "roundtrip (attach (init tk sk) ser) x = unmarshal_state c u st"
    by (simp add: roundtrip_def)
  with assms(5) show ?thesis by simp
qed

theorem roundtrip_wrapped_witness:
  "''__type__'' \<noteq> ''state''
   \<and> marshal_point (point 1 2) = Inr (PDict (fmupd ''y'' (PInt 2) (fmupd ''x'' (PInt 1) fmempty)))
   \<and> roundtrip (attach default_codec (point_serializer True)) (point 1 2) = Inr (point 1 2)"
  using roundtrip_wrapped [of "''__type__''" "''state''" "point_serializer True" "point 1 2"
      "''Point''" marshal_point "PDict (fmupd ''y'' (PInt 2) (fmupd ''x'' (PInt 1) fmempty))"
      "Some Point_cls" "Populate unmarshal_point" "(=)"]
  by (simp add: point_serializer_def point_def default_codec_def unmarshal_state_def py_new_Point)

text \<open>
  Claim C7 (custom keys). For the codec built with the type key \<open>t\<close> and the state key
  \<open>s\<close>: encoding an instance registered with the wrap flag set gives a dictionary whose
  keys are exactly \<open>t\<close> and \<open>s\<close>, holding the type name and the state; the round trip
  gives the instance back when the unmarshaller inverts the marshaller on it; and a
  dictionary made of the default keys \<open>__type__\<close> and \<open>state\<close> is returned unchanged
  by the decoder.
\<close>

theorem custom_keys:
  assumes "marshallers ser (class_of x) = Some (t, m, True)"
    and "m x = Inr st"
    and "unmarshallers ser t = Some (c, u)"
    and "unmarshal_state c u st = Inr x"
  shows "(\<exists>w. default_encoder (attach (init ''t'' ''s'') ser) x = Inr (PDict w)
            \<and> fmdom w = {|''t'', ''s''|}
            \<and> fmlookup w ''t'' = Some (PStr t) \<and> fmlookup w ''s'' = Some st)
       \<and> roundtrip (attach (init ''t'' ''s'') ser) x = Inr x
       \<and> default_decoder (attach (init ''t'' ''s'') ser)
            (PDict (fmupd ''state'' b (fmupd ''__type__'' a fmempty)))
          = Inr (PDict (fmupd ''state'' b (fmupd ''__type__'' a fmempty)))"
proof (intro conjI)
  let ?keys = "\<lparr>type_key = ''t'', state_key = ''s''\<rparr>"
  let ?w = "fmupd ''s'' st (fmupd ''t'' (PStr t) fmempty)"
  have enc: "default_encoder (attach (init ''t'' ''s'') ser) x = Inr (PDict ?w)"
    using assms(1,2)
    by (simp add: default_encoder_registered [where ser = ser] wrap_state_dict_def)
  have "fmdom ?w = {|''t'', ''s''|}" by auto
  moreover have "fmlookup ?w ''t'' = Some (PStr t)" and "fmlookup ?w ''s'' = Some st"
    by simp_all
  ultimately show "\<exists>w. default_encoder (attach (init ''t'' ''s'') ser) x = Inr (PDict w)
      \<and> fmdom w = {|''t'', ''s''|}
      \<and> fmlookup w ''t'' = Some (PStr t) \<and> fmlookup w ''s'' = Some st"
    using enc by blast
  have "unwrap_callback (init ''t'' ''s'') (PDict ?w) = Inr (PStr t, st)"
    using unwrap_wrap [of ?keys t st] by (simp add: wrap_state_dict_def)
  then have "default_decoder (attach (init ''t'' ''s'') ser) (PDict ?w) = unmarshal_state c u st"
    using assms(3) by (simp add: default_decoder_named)
  with enc assms(4) show "roundtrip (attach (init ''t'' ''s'') ser) x = Inr x"
    by (simp add: roundtrip_def)
  have "unwrap_callback (attach (init ''t'' ''s'') ser)
      (PDict (fmupd ''state'' b (fmupd ''__type__'' a fmempty))) = Inr (PNone, PNone)"
    by (simp add: unwrap_state_dict_PDict)
  then show "default_decoder (attach (init ''t'' ''s'') ser)
      (PDict (fmupd ''state'' b (fmupd ''__type__'' a fmempty)))
      = Inr (PDict (fmupd ''state'' b (fmupd ''__type__'' a fmempty)))"
    by (rule default_decoder_untagged)
qed

theorem custom_keys_witness:
  "default_encoder (attach (init ''t'' ''s'') (point_serializer True)) (point 1 2)
     = Inr (PDict (fmupd ''s'' (PDict (fmupd ''y'' (PInt 2) (fmupd ''x'' (PInt 1) fmempty)))
         (fmupd ''t'' (PStr ''Point'') fmempty)))
   \<and> roundtrip (attach (init ''t'' ''s'') (point_serializer True)) (point 1 2) = Inr (point 1 2)
   \<and> default_decoder (attach (init ''t'' ''s'') (point_serializer True)) point_dict
     = Inr point_dict"
proof -
  have enc: "default_encoder (attach (init ''t'' ''s'') (point_serializer True)) (point 1 2)
     = Inr (PDict (fmupd ''s'' (PDict (fmupd ''y'' (PInt 2) (fmupd ''x'' (PInt 1) fmempty)))
         (fmupd ''t'' (PStr ''Point'') fmempty)))"
    by (simp add: default_encoder_def point_serializer_def point_def wrap_state_dict_def)
  show ?thesis
    using custom_keys [of "point_serializer True" "point 1 2" "''Point''" marshal_point
        "PDict (fmupd ''y'' (PInt 2) (fmupd ''x'' (PInt 1) fmempty))"
        "Some Point_cls" "Populate unmarshal_point"
        "PDict (fmupd ''y'' (PInt 2) (fmupd ''x'' (PInt 1) fmempty))" "PStr ''Point''"]
      enc
    by (simp add: point_serializer_def point_def unmarshal_state_def py_new_Point point_dict_def)
qed

end
